theory Spec2Isabelle
  imports Complex_Main "HOL-Library.Multiset"
begin

section \<open>Python values\<close>

text \<open>
  The backend (python\_backend/app.py) handles JSON payloads decoded by \<open>json.loads\<close>:
  \<open>None\<close>, booleans, unbounded integers, floats, strings, lists and dicts.

  A Python float is modelled as a finite rational or one of the three non-finite values:
  \<open>json.loads\<close> produces \<open>inf\<close> for a literal such as \<open>1e999\<close> (and accepts
  \<open>Infinity\<close> and \<open>NaN\<close>), and \<open>float("inf")\<close>, \<open>float("nan")\<close> succeed, so a
  reading can carry them. Arithmetic on finite floats is exact here: binary rounding and
  the overflow of a finite sum to infinity are not modelled.
\<close>

datatype pyfloat = Fin rat | PInf | NInf | NaN

datatype pyval =
    VNone
  | VBool bool
  | VInt int
  | VFloat pyfloat
  | VStr string
  | VList "pyval list"
  | VDict "(string \<times> pyval) list"

text \<open>A dict with string keys; \<open>VDict kvs\<close> denotes \<open>map_of kvs\<close>.\<close>

type_synonym dict = "string \<rightharpoonup> pyval"

datatype pyerr = TypeError | ValueError | OverflowError | KeyError | AttributeError

text \<open>A number held in a Python variable: an \<open>int\<close> or a \<open>float\<close>.\<close>

datatype pynum = NInt int | NFloat pyfloat

fun of_num :: "pynum \<Rightarrow> pyval" where
  "of_num (NInt i) = VInt i"
| "of_num (NFloat f) = VFloat f"

fun to_float :: "pynum \<Rightarrow> pyfloat" where
  "to_float (NInt i) = Fin (of_int i)"
| "to_float (NFloat f) = f"

subsection \<open>Float arithmetic and comparison\<close>

fun fadd :: "pyfloat \<Rightarrow> pyfloat \<Rightarrow> pyfloat" where
  "fadd NaN _ = NaN"
| "fadd _ NaN = NaN"
| "fadd (Fin a) (Fin b) = Fin (a + b)"
| "fadd PInf NInf = NaN"
| "fadd NInf PInf = NaN"
| "fadd PInf _ = PInf"
| "fadd _ PInf = PInf"
| "fadd NInf _ = NInf"
| "fadd _ NInf = NInf"

text \<open>Multiplication by a finite constant \<open>c\<close>.\<close>

fun fmulc :: "pyfloat \<Rightarrow> rat \<Rightarrow> pyfloat" where
  "fmulc (Fin a) c = Fin (a * c)"
| "fmulc NaN c = NaN"
| "fmulc PInf c = (if c > 0 then PInf else if c < 0 then NInf else NaN)"
| "fmulc NInf c = (if c > 0 then NInf else if c < 0 then PInf else NaN)"

text \<open>Division by a finite constant; every use divides by a nonzero literal.\<close>

definition fdivc :: "pyfloat \<Rightarrow> rat \<Rightarrow> pyfloat" where
  "fdivc x c = fmulc x (1 / c)"

text \<open>\<open>x < y\<close> on floats: every comparison with \<open>nan\<close> is false.\<close>

fun flt :: "pyfloat \<Rightarrow> pyfloat \<Rightarrow> bool" where
  "flt NaN _ = False"
| "flt _ NaN = False"
| "flt (Fin a) (Fin b) = (a < b)"
| "flt NInf NInf = False"
| "flt NInf _ = True"
| "flt _ NInf = False"
| "flt PInf _ = False"
| "flt _ PInf = True"

definition fgt :: "pyfloat \<Rightarrow> pyfloat \<Rightarrow> bool" where
  "fgt x y = flt y x"

text \<open>\<open>x <= y\<close> on floats.\<close>

fun fle :: "pyfloat \<Rightarrow> pyfloat \<Rightarrow> bool" where
  "fle NaN _ = False"
| "fle _ NaN = False"
| "fle (Fin a) (Fin b) = (a \<le> b)"
| "fle NInf _ = True"
| "fle _ PInf = True"
| "fle PInf _ = False"
| "fle _ NInf = False"

text \<open>Comparison of a number with an integer literal (\<open>v > 750\<close>, \<open>v <= 200\<close>).\<close>

definition num_gt :: "pynum \<Rightarrow> int \<Rightarrow> bool" where
  "num_gt v n = fgt (to_float v) (Fin (of_int n))"

definition num_lt :: "pynum \<Rightarrow> int \<Rightarrow> bool" where
  "num_lt v n = flt (to_float v) (Fin (of_int n))"

definition num_le :: "pynum \<Rightarrow> int \<Rightarrow> bool" where
  "num_le v n = fle (to_float v) (Fin (of_int n))"

subsection \<open>Rounding\<close>

text \<open>Python rounds a float to the nearest value, ties to even.\<close>

definition round_half_even :: "rat \<Rightarrow> int" where
  "round_half_even x =
     (let f = \<lfloor>x\<rfloor>; d = x - of_int f
      in if d < 1 / 2 then f
         else if d > 1 / 2 then f + 1
         else if even f then f else f + 1)"

text \<open>\<open>round(x, 1)\<close> and \<open>round(x, 0)\<close> on a float: a non-finite value is returned as it is.\<close>

fun fround1 :: "pyfloat \<Rightarrow> pyfloat" where
  "fround1 (Fin a) = Fin (of_int (round_half_even (a * 10)) / 10)"
| "fround1 x = x"

fun fround0 :: "pyfloat \<Rightarrow> pyfloat" where
  "fround0 (Fin a) = Fin (of_int (round_half_even a))"
| "fround0 x = x"

text \<open>\<open>round(x, 1)\<close> on a number: an \<open>int\<close> is returned unchanged.\<close>

fun round1 :: "pynum \<Rightarrow> pynum" where
  "round1 (NInt i) = NInt i"
| "round1 (NFloat f) = NFloat (fround1 f)"

text \<open>
  \<open>round(x)\<close> with one argument returns an \<open>int\<close>, and raises \<open>ValueError\<close> on
  \<open>nan\<close> and \<open>OverflowError\<close> on an infinity.
\<close>

fun round_int :: "pynum \<Rightarrow> pyerr + int" where
  "round_int (NInt i) = Inr i"
| "round_int (NFloat (Fin a)) = Inr (round_half_even a)"
| "round_int (NFloat NaN) = Inl ValueError"
| "round_int (NFloat PInf) = Inl OverflowError"
| "round_int (NFloat NInf) = Inl OverflowError"

text \<open>\<open>max(0, y)\<close>: the first argument is kept unless the second is strictly greater.\<close>

definition max0 :: "pynum \<Rightarrow> pynum" where
  "max0 y = (if num_gt y 0 then y else NInt 0)"

subsection \<open>Conversion to float\<close>

text \<open>
  \<open>float(i)\<close> on an \<open>int\<close> raises \<open>OverflowError\<close> when \<open>i\<close> rounds to a magnitude
  beyond the largest double.
\<close>

definition float_int_limit :: int where
  "float_int_limit = 2 ^ 1024 - 2 ^ 970"

text \<open>
  \<open>float(v)\<close>. The builtin's parser of strings is not part of the repository: it is the
  parameter \<open>sf\<close>, which returns \<open>None\<close> where \<open>float(s)\<close> raises \<open>ValueError\<close>.
\<close>

fun py_float :: "(string \<Rightarrow> pyfloat option) \<Rightarrow> pyval \<Rightarrow> pyerr + pyfloat" where
  "py_float sf VNone = Inl TypeError"
| "py_float sf (VBool b) = Inr (Fin (if b then 1 else 0))"
| "py_float sf (VInt i) =
     (if float_int_limit \<le> \<bar>i\<bar> then Inl OverflowError else Inr (Fin (of_int i)))"
| "py_float sf (VFloat f) = Inr f"
| "py_float sf (VStr s) = (case sf s of None \<Rightarrow> Inl ValueError | Some f \<Rightarrow> Inr f)"
| "py_float sf (VList xs) = Inl TypeError"
| "py_float sf (VDict kvs) = Inl TypeError"

subsection \<open>Strings\<close>

text \<open>
  Characters are the code points below 256. \<open>str.strip()\<close> removes the whitespace
  code points, \<open>str.lower()\<close> maps the upper-case letters to lower case.
\<close>

definition py_isspace :: "char \<Rightarrow> bool" where
  "py_isspace c =
     (let n = (of_char c :: nat)
      in (9 \<le> n \<and> n \<le> 13) \<or> (28 \<le> n \<and> n \<le> 32) \<or> n = 133 \<or> n = 160)"

definition py_strip :: "string \<Rightarrow> string" where
  "py_strip s = rev (dropWhile py_isspace (rev (dropWhile py_isspace s)))"

definition lower_char :: "char \<Rightarrow> char" where
  "lower_char c =
     (let n = (of_char c :: nat)
      in if (65 \<le> n \<and> n \<le> 90) \<or> (192 \<le> n \<and> n \<le> 222 \<and> n \<noteq> 215)
         then char_of (n + 32) else c)"

definition py_lower :: "string \<Rightarrow> string" where
  "py_lower s = map lower_char s"

section \<open>Derived fields: build\_derived\_from\_reading\<close>

text \<open>
  The helper \<open>num(key, default)\<close> is \<open>float(r.get(key, default))\<close>, and \<open>default\<close> when
  that raises. With \<open>default=None\<close> it returns a float or \<open>None\<close> (\<open>num_opt\<close>); with a
  numeric default it returns a float, or the default itself when the stored value does not
  coerce (\<open>num\<close>).
\<close>

definition num_opt :: "(string \<Rightarrow> pyfloat option) \<Rightarrow> dict \<Rightarrow> string \<Rightarrow> pyfloat option" where
  "num_opt sf r key =
     (case r key of
        None \<Rightarrow> None
      | Some v \<Rightarrow> (case py_float sf v of Inl e \<Rightarrow> None | Inr f \<Rightarrow> Some f))"

definition num :: "(string \<Rightarrow> pyfloat option) \<Rightarrow> dict \<Rightarrow> string \<Rightarrow> pynum \<Rightarrow> pynum" where
  "num sf r key dflt =
     (case py_float sf (case r key of None \<Rightarrow> of_num dflt | Some v \<Rightarrow> v) of
        Inl e \<Rightarrow> dflt
      | Inr f \<Rightarrow> NFloat f)"

definition temperature_of :: "pyfloat option \<Rightarrow> pyfloat option \<Rightarrow> pyfloat option" where
  "temperature_of temp_b temp_d =
     (case (temp_b, temp_d) of
        (Some b, Some d) \<Rightarrow> Some (fround1 (fdivc (fadd b d) 2))
      | (Some b, None) \<Rightarrow> Some (fround1 b)
      | (None, Some d) \<Rightarrow> Some (fround1 d)
      | (None, None) \<Rightarrow> None)"

definition gas_drop :: "(string \<Rightarrow> pyfloat option) \<Rightarrow> dict \<Rightarrow> string \<Rightarrow> pynum" where
  "gas_drop sf r key = max0 (round1 (num sf r key (NInt 0)))"

definition gas_baseline :: "(string \<Rightarrow> pyfloat option) \<Rightarrow> dict \<Rightarrow> string \<Rightarrow> pynum" where
  "gas_baseline sf r key = round1 (num sf r key (NInt 0))"

definition light_intensity_of :: "(string \<Rightarrow> pyfloat option) \<Rightarrow> dict \<Rightarrow> pynum" where
  "light_intensity_of sf r =
     (case num_opt sf r ''light_raw'' of
        Some light_raw \<Rightarrow> NFloat (fround0 light_raw)
      | None \<Rightarrow>
         (case num_opt sf r ''light_percent'' of
            Some light_percent \<Rightarrow> NFloat (fround0 (fmulc (fdivc light_percent 100) 4095))
          | None \<Rightarrow> NInt 0))"

text \<open>
  \<open>r.get("flame_detected", 0)\<close> and the \<open>isinstance\<close> chain. \<open>bool\<close> is a subclass of
  \<open>int\<close>, so the first branch takes booleans too; the last branch is reached by \<open>None\<close>,
  a list or a dict.
\<close>

definition flame_detected_of :: "(string \<Rightarrow> pyfloat option) \<Rightarrow> dict \<Rightarrow> bool" where
  "flame_detected_of sf r =
     (let flame_raw = num sf r ''flame_raw'' (NInt 4095);
          flame_detected_value = (case r ''flame_detected'' of None \<Rightarrow> VInt 0 | Some v \<Rightarrow> v)
      in case flame_detected_value of
           VBool b \<Rightarrow> b
         | VInt i \<Rightarrow> i \<noteq> 0
         | VFloat f \<Rightarrow> f \<noteq> Fin 0
         | VStr s \<Rightarrow> py_lower (py_strip s) \<in> set [''yes'', ''y'', ''true'', ''1'']
         | _ \<Rightarrow> num_lt flame_raw 2000)"

definition air_quality_label :: "pynum \<Rightarrow> string" where
  "air_quality_label d =
     (if num_le d 200 then ''Good'' else if num_gt d 500 then ''Poor'' else ''Moderate'')"

definition gas_label :: "pynum \<Rightarrow> string" where
  "gas_label d =
     (if num_le d 300 then ''Safe'' else if num_gt d 750 then ''High'' else ''Elevated'')"

definition opt_float :: "pyfloat option \<Rightarrow> pyval" where
  "opt_float x = (case x of None \<Rightarrow> VNone | Some f \<Rightarrow> VFloat f)"

text \<open>
  The dict \<open>derived\<close> of \<open>build_derived_from_reading(r)\<close>, given the rounded soil
  moisture; \<open>now\<close> is the value of the call \<open>time.time()\<close>.
\<close>

definition derived_dict ::
  "(string \<Rightarrow> pyfloat option) \<Rightarrow> rat \<Rightarrow> dict \<Rightarrow> int \<Rightarrow> dict" where
  "derived_dict sf now r soil_moisture =
     (let temperature = temperature_of (num_opt sf r ''temperature_bmp280'')
                                       (num_opt sf r ''temperature_dht22'');
          mq135_drop = gas_drop sf r ''mq135_drop'';
          mq2_drop = gas_drop sf r ''mq2_drop'';
          mq7_drop = gas_drop sf r ''mq7_drop'';
          mq135_baseline = gas_baseline sf r ''mq135_baseline'';
          mq2_baseline = gas_baseline sf r ''mq2_baseline'';
          mq7_baseline = gas_baseline sf r ''mq7_baseline'';
          light_intensity = light_intensity_of sf r;
          flame_detected = flame_detected_of sf r;
          flame_status = (if flame_detected then ''Flame Detected'' else ''Flame Not Detected'');
          co2_level = fround1 (fadd (Fin 400) (fmulc (to_float mq135_drop) (6 / 5)));
          humidity = round1 (num sf r ''humidity'' (NFloat (Fin 0)));
          pressure = round1 (num sf r ''pressure'' (NFloat (Fin 0)));
          altitude = round1 (num sf r ''altitude'' (NFloat (Fin 0)))
      in map_of
            [(''temperature'', opt_float temperature),
             (''humidity'', of_num humidity),
             (''co2_level'', VFloat co2_level),
             (''light'', of_num light_intensity),
             (''light_raw'', of_num light_intensity),
             (''pressure'', of_num pressure),
             (''altitude'', of_num altitude),
             (''soil_moisture'', VInt soil_moisture),
             (''flame_detected'', VBool flame_detected),
             (''flame_status'', VStr flame_status),
             (''mq135_drop'', of_num mq135_drop),
             (''mq2_drop'', of_num mq2_drop),
             (''mq7_drop'', of_num mq7_drop),
             (''mq135_baseline'', of_num mq135_baseline),
             (''mq2_baseline'', of_num mq2_baseline),
             (''mq7_baseline'', of_num mq7_baseline),
             (''air_quality'', VStr (air_quality_label mq135_drop)),
             (''flammable_gas'', VStr (gas_label mq2_drop)),
             (''co_level'', VStr (gas_label mq7_drop)),
             (''timestamp'',
                (case r ''timestamp'' of
                   Some v \<Rightarrow> v
                 | None \<Rightarrow> (case r ''_ts_num'' of Some v \<Rightarrow> v | None \<Rightarrow> VFloat (Fin now)))),
             (''co2_air_quality'',
                VDict [(''co2'', VFloat co2_level),
                       (''air_quality'', VStr (air_quality_label mq135_drop))]),
             (''pressure_altitude'',
                VDict [(''pressure'', of_num pressure), (''altitude'', of_num altitude)])])"

text \<open>
  \<open>build_derived_from_reading(r)\<close>. The only expression outside the helper's \<open>try\<close>
  that can raise is the one-argument \<open>round\<close> of the soil moisture, inside the dict
  display.
\<close>

definition build_derived_from_reading ::
  "(string \<Rightarrow> pyfloat option) \<Rightarrow> rat \<Rightarrow> dict \<Rightarrow> pyerr + dict" where
  "build_derived_from_reading sf now r =
     (case round_int (num sf r ''soil_moisture'' (NInt 45)) of
        Inl e \<Rightarrow> Inl e
      | Inr soil_moisture \<Rightarrow> Inr (derived_dict sf now r soil_moisture))"

text \<open>A field of the snapshot, when one was built.\<close>

definition derived_field :: "pyerr + dict \<Rightarrow> string \<Rightarrow> pyval option" where
  "derived_field res k = (case res of Inl e \<Rightarrow> None | Inr d \<Rightarrow> d k)"

section \<open>Telemetry fetcher: fetch\_apex\_readings\<close>

text \<open>Truth value of a Python object, as \<open>if apex_ts_str:\<close> tests it.\<close>

fun py_truthy :: "pyval \<Rightarrow> bool" where
  "py_truthy VNone = False"
| "py_truthy (VBool b) = b"
| "py_truthy (VInt i) = (i \<noteq> 0)"
| "py_truthy (VFloat f) = (f \<noteq> Fin 0)"
| "py_truthy (VStr s) = (s \<noteq> [])"
| "py_truthy (VList xs) = (xs \<noteq> [])"
| "py_truthy (VDict kvs) = (kvs \<noteq> [])"

text \<open>\<open>s.replace('Z', '')\<close>.\<close>

definition replace_Z :: "string \<Rightarrow> string" where
  "replace_Z s = filter (\<lambda>c. c \<noteq> CHR ''Z'') s"

text \<open>
  The timestamp of one item. \<open>strp s\<close> stands for
  \<open>datetime.strptime(s, "%Y-%m-%dT%H:%M:%S.%f").timestamp()\<close>, a library call: it is
  \<open>None\<close> where the call raises. \<open>clk n\<close> is the value of the \<open>n\<close>-th call of
  \<open>time.time()\<close> in this fetch (counted from 0); the second component of the result is
  the number of calls made so far. A truthy value that is not a string has no
  \<open>replace\<close>, which raises inside the \<open>try\<close>; the branch for a missing timestamp
  assigns twice and keeps the second value.
\<close>

definition resolve_timestamp ::
  "(string \<Rightarrow> rat option) \<Rightarrow> (nat \<Rightarrow> rat) \<Rightarrow> nat \<Rightarrow> nat \<Rightarrow> dict \<Rightarrow> rat \<times> nat" where
  "resolve_timestamp strp clk n idx it =
     (let apex_ts_str = (case it ''timestamp_reading'' of None \<Rightarrow> VStr [] | Some v \<Rightarrow> v)
      in if py_truthy apex_ts_str then
           (case apex_ts_str of
              VStr s \<Rightarrow>
                (case strp (replace_Z s) of
                   Some t \<Rightarrow> (t, n)
                 | None \<Rightarrow> (clk n - of_nat idx * 10, Suc n))
            | _ \<Rightarrow> (clk n - of_nat idx * 10, Suc n))
         else (clk (Suc n) - of_nat idx * 10, Suc (Suc n)))"

text \<open>
  The loop \<open>for idx, it in enumerate(items)\<close>. \<open>dict(it)\<close> or \<open>it.get\<close> raises on an
  item that is not a dict (a \<open>TypeError\<close>, \<open>ValueError\<close> or \<open>AttributeError\<close>, which
  the caller treats alike).
\<close>

fun normalize_items ::
  "(string \<Rightarrow> rat option) \<Rightarrow> (nat \<Rightarrow> rat) \<Rightarrow> nat \<Rightarrow> nat \<Rightarrow> pyval list \<Rightarrow> pyerr + dict list" where
  "normalize_items strp clk n idx [] = Inr []"
| "normalize_items strp clk n idx (VDict kvs # its) =
     (let it = map_of kvs;
          (ts, n1) = resolve_timestamp strp clk n idx it;
          it_copy = it(''timestamp'' \<mapsto> VFloat (Fin ts),
                       ''_ts_num'' \<mapsto> VFloat (Fin ts),
                       ''_pull_time'' \<mapsto> VFloat (Fin (clk n1)))
      in case normalize_items strp clk (Suc n1) (Suc idx) its of
           Inl e \<Rightarrow> Inl e
         | Inr rest \<Rightarrow> Inr (it_copy # rest))"
| "normalize_items strp clk n idx (v # its) = Inl TypeError"

text \<open>
  \<open>list.sort(key=..., reverse=...)\<close>. Keys that are finite numbers are ordered as the
  rationals; the sort is stable, and \<open>reverse=True\<close> keeps equal keys in their original
  order. Any other key is outside this order and is reported as the \<open>TypeError\<close> that
  Python raises when it compares unordered objects.
\<close>

fun num_key :: "pyval \<Rightarrow> rat option" where
  "num_key (VFloat (Fin t)) = Some t"
| "num_key (VInt i) = Some (of_int i)"
| "num_key (VBool b) = Some (if b then 1 else 0)"
| "num_key v = None"

definition key_rat :: "pyval \<Rightarrow> rat" where
  "key_rat v = (case num_key v of None \<Rightarrow> 0 | Some t \<Rightarrow> t)"

definition py_sort :: "('a \<Rightarrow> pyval) \<Rightarrow> bool \<Rightarrow> 'a list \<Rightarrow> pyerr + 'a list" where
  "py_sort key reverse xs =
     (if list_all (\<lambda>x. num_key (key x) \<noteq> None) xs
      then Inr (if reverse then rev (sort_key (\<lambda>x. key_rat (key x)) (rev xs))
                else sort_key (\<lambda>x. key_rat (key x)) xs)
      else Inl TypeError)"

text \<open>The three accepted shapes of the decoded payload.\<close>

definition payload_items :: "pyval \<Rightarrow> pyval list option" where
  "payload_items data =
     (case data of
        VDict kvs \<Rightarrow>
          (case map_of kvs ''items'' of
             Some (VList its) \<Rightarrow> Some its
           | _ \<Rightarrow> Some [data])
      | VList its \<Rightarrow> Some its
      | _ \<Rightarrow> None)"

text \<open>
  \<open>fetch_apex_readings\<close> from the decoded payload on: \<open>None\<close> stands for every failure
  before it (transport, status other than 200, gzip, JSON decoding), all of which return
  the empty list. Every exception of the body is caught and returns the empty list.
  The logging block after the sort only prints.
\<close>

definition fetch_apex_readings ::
  "(string \<Rightarrow> rat option) \<Rightarrow> (nat \<Rightarrow> rat) \<Rightarrow> pyval option \<Rightarrow> dict list" where
  "fetch_apex_readings strp clk payload =
     (case payload of
        None \<Rightarrow> []
      | Some data \<Rightarrow>
         (case payload_items data of
            None \<Rightarrow> []
          | Some its \<Rightarrow>
             (case normalize_items strp clk 0 0 its of
                Inl e \<Rightarrow> []
              | Inr normalized \<Rightarrow>
                 (case py_sort (\<lambda>x. case x ''_ts_num'' of None \<Rightarrow> VInt 0 | Some v \<Rightarrow> v)
                               True normalized of
                    Inl e \<Rightarrow> []
                  | Inr sorted_items \<Rightarrow> sorted_items))))"

section \<open>Background poller and cache\<close>

text \<open>
  The cache \<open>_smart_cache\<close>: its data and the \<open>datetime\<close> of the capture, in
  microseconds (the resolution of \<open>datetime\<close>). Its two constant entries
  (\<open>ttl_seconds\<close>, \<open>fetch_interval\<close>) are never written and are left out.
\<close>

record smart_cache =
  cache_data :: "dict list option"
  cache_timestamp :: "int option"

definition smart_cache_init :: smart_cache where
  "smart_cache_init = \<lparr>cache_data = None, cache_timestamp = None\<rparr>"

text \<open>One cycle's inputs: what the upstream answered, the clocks read during the cycle.\<close>

record poll =
  poll_payload :: "pyval option"
  poll_clock :: "nat \<Rightarrow> rat"
  poll_now :: int

text \<open>One iteration of the loop of \<open>continuous_apex_poller\<close>.\<close>

definition poll_cycle :: "(string \<Rightarrow> rat option) \<Rightarrow> poll \<Rightarrow> smart_cache \<Rightarrow> smart_cache" where
  "poll_cycle strp p c =
     (let readings = fetch_apex_readings strp (poll_clock p) (poll_payload p)
      in if readings \<noteq> []
         then c\<lparr>cache_data := Some readings, cache_timestamp := Some (poll_now p)\<rparr>
         else c)"

text \<open>The first cycles of the endless loop, in order.\<close>

definition continuous_apex_poller ::
  "(string \<Rightarrow> rat option) \<Rightarrow> poll list \<Rightarrow> smart_cache \<Rightarrow> smart_cache" where
  "continuous_apex_poller strp ps c = foldl (\<lambda>c p. poll_cycle strp p c) c ps"

subsection \<open>Reading the cache\<close>

fun str_of_nat :: "nat \<Rightarrow> string" where
  "str_of_nat n =
     (if n < 10 then [char_of (48 + n)]
      else str_of_nat (n div 10) @ [char_of (48 + n mod 10)])"

declare str_of_nat.simps [simp del]

text \<open>The format \<open>{x:.0f}\<close>: nearest integer, ties to even, the sign kept.\<close>

definition fmt_0f :: "rat \<Rightarrow> string" where
  "fmt_0f x =
     (if x < 0 then CHR ''-'' # str_of_nat (nat (round_half_even (- x)))
      else str_of_nat (nat (round_half_even x)))"

text \<open>\<open>get_cached_apex_or_fetch()\<close>; \<open>now\<close> is \<open>datetime.now()\<close> in microseconds.\<close>

definition get_cached_apex_or_fetch :: "int \<Rightarrow> smart_cache \<Rightarrow> dict list option \<times> string" where
  "get_cached_apex_or_fetch now c =
     (case (cache_data c, cache_timestamp c) of
        (Some d, Some t) \<Rightarrow>
          (let age = (of_int (now - t) :: rat) / 1000000
           in if age < 10 then (Some d, ''cache_age_'' @ fmt_0f age @ ''s'')
              else (Some d, ''cache_stale_'' @ fmt_0f age @ ''s''))
      | _ \<Rightarrow> (None, ''no_data''))"

section \<open>Endpoints\<close>

definition startswith_underscore :: "string \<Rightarrow> bool" where
  "startswith_underscore k = (case k of [] \<Rightarrow> False | c # cs \<Rightarrow> c = CHR ''_'')"

text \<open>\<open>{k: v for k, v in latest.items() if not k.startswith("_")}\<close>.\<close>

definition public_fields :: "dict \<Rightarrow> dict" where
  "public_fields latest = (\<lambda>k. if startswith_underscore k then None else latest k)"

text \<open>
  \<open>GET /api/sensor-data\<close>: the status code and the JSON body. \<open>now\<close> is
  \<open>time.time()\<close>, \<open>now_dt\<close> is \<open>datetime.now()\<close>.
\<close>

definition get_sensor_data ::
  "(string \<Rightarrow> pyfloat option) \<Rightarrow> rat \<Rightarrow> int \<Rightarrow> smart_cache \<Rightarrow> pyerr + nat \<times> dict" where
  "get_sensor_data sf now now_dt c =
     (let (readings, cache_status) = get_cached_apex_or_fetch now_dt c
      in case readings of
           Some (latest # rest) \<Rightarrow>
             (case build_derived_from_reading sf now latest of
                Inl e \<Rightarrow> Inl e
              | Inr derived \<Rightarrow>
                  Inr (200, (public_fields latest ++ derived)
                              (''_cache_status'' \<mapsto> VStr cache_status,
                               ''_data_source'' \<mapsto> VStr ''apex'')))
         | _ \<Rightarrow>
             Inr (503, [''error'' \<mapsto> VStr ''APEX data not available yet'',
                        ''message'' \<mapsto> VStr ''Waiting for APEX to respond. Please wait...'',
                        ''_data_source'' \<mapsto> VStr ''none'']))"

subsection \<open>Alert engine: get\_alerts\<close>

text \<open>
  An alert. The message of an alert is display text formatted from the same value and is
  left out; the pictographs that prefix three of the titles and the degree sign of the
  temperature unit are left out too.
\<close>

record alert =
  a_title :: string
  a_timestamp :: pyval
  a_sensor_type :: string
  a_severity :: string
  a_value :: pyval
  a_unit :: string
  a_sound :: bool

record alerts_response =
  r_status :: nat
  r_error :: "string option"
  r_alerts :: "alert list"
  r_timestamp :: "pyval option"
  r_alert_count :: nat
  r_should_alert :: bool

text \<open>\<open>d[k]\<close> raises \<open>KeyError\<close> on a missing key; \<open>d.get(k, dflt)\<close> does not.\<close>

definition subscript :: "dict \<Rightarrow> string \<Rightarrow> pyerr + pyval" where
  "subscript d k = (case d k of None \<Rightarrow> Inl KeyError | Some v \<Rightarrow> Inr v)"

definition dict_get :: "dict \<Rightarrow> string \<Rightarrow> pyval \<Rightarrow> pyval" where
  "dict_get d k dflt = (case d k of None \<Rightarrow> dflt | Some v \<Rightarrow> v)"

text \<open>A value as a number, when it is one (\<open>bool\<close> is a subclass of \<open>int\<close>).\<close>

fun as_num :: "pyval \<Rightarrow> pynum option" where
  "as_num (VBool b) = Some (NInt (if b then 1 else 0))"
| "as_num (VInt i) = Some (NInt i)"
| "as_num (VFloat f) = Some (NFloat f)"
| "as_num v = None"

text \<open>\<open>v > n\<close> and \<open>v < n\<close> against an integer literal: \<open>TypeError\<close> unless \<open>v\<close> is a number.\<close>

definition py_gt :: "pyval \<Rightarrow> int \<Rightarrow> pyerr + bool" where
  "py_gt v n = (case as_num v of None \<Rightarrow> Inl TypeError | Some x \<Rightarrow> Inr (num_gt x n))"

definition py_lt :: "pyval \<Rightarrow> int \<Rightarrow> pyerr + bool" where
  "py_lt v n = (case as_num v of None \<Rightarrow> Inl TypeError | Some x \<Rightarrow> Inr (num_lt x n))"

text \<open>The implicit conversion of an \<open>int\<close> operand in mixed arithmetic.\<close>

fun num_float :: "pynum \<Rightarrow> pyerr + pyfloat" where
  "num_float (NInt i) =
     (if float_int_limit \<le> \<bar>i\<bar> then Inl OverflowError else Inr (Fin (of_int i)))"
| "num_float (NFloat f) = Inr f"

text \<open>\<open>a + b\<close>: numbers add, strings and lists concatenate, anything else raises.\<close>

definition py_add :: "pyval \<Rightarrow> pyval \<Rightarrow> pyerr + pyval" where
  "py_add a b =
     (case (as_num a, as_num b) of
        (Some (NInt i), Some (NInt j)) \<Rightarrow> Inr (VInt (i + j))
      | (Some x, Some y) \<Rightarrow>
          (case (num_float x, num_float y) of
             (Inr f, Inr g) \<Rightarrow> Inr (VFloat (fadd f g))
           | _ \<Rightarrow> Inl OverflowError)
      | _ \<Rightarrow>
          (case (a, b) of
             (VStr s, VStr t) \<Rightarrow> Inr (VStr (s @ t))
           | (VList xs, VList ys) \<Rightarrow> Inr (VList (xs @ ys))
           | _ \<Rightarrow> Inl TypeError))"

text \<open>\<open>v / 2\<close>: true division, always a float.\<close>

definition py_div2 :: "pyval \<Rightarrow> pyerr + pyfloat" where
  "py_div2 v =
     (case as_num v of
        None \<Rightarrow> Inl TypeError
      | Some (NInt i) \<Rightarrow>
          (if 2 * float_int_limit \<le> \<bar>i\<bar> then Inl OverflowError else Inr (Fin (of_int i / 2)))
      | Some (NFloat f) \<Rightarrow> Inr (fdivc f 2))"

definition bindE :: "'e + 'a \<Rightarrow> ('a \<Rightarrow> 'e + 'b) \<Rightarrow> 'e + 'b" where
  "bindE m f = (case m of Inl e \<Rightarrow> Inl e | Inr x \<Rightarrow> f x)"

text \<open>One appended alert; its timestamp is \<open>current_data['timestamp']\<close>.\<close>

definition mk_alert ::
  "dict \<Rightarrow> string \<Rightarrow> string \<Rightarrow> string \<Rightarrow> pyval \<Rightarrow> string \<Rightarrow> bool \<Rightarrow> pyerr + alert list" where
  "mk_alert current_data title sensor severity v unit_name snd_flag =
     bindE (subscript current_data ''timestamp'') (\<lambda>ts.
       Inr [\<lparr>a_title = title, a_timestamp = ts, a_sensor_type = sensor,
             a_severity = severity, a_value = v, a_unit = unit_name, a_sound = snd_flag\<rparr>])"

text \<open>\<open>current_data.get('flame_detected') == 'Yes'\<close>: only the string \<open>'Yes'\<close> is equal to it.\<close>

definition flame_rule :: "dict \<Rightarrow> pyerr + alert list" where
  "flame_rule current_data =
     (if current_data ''flame_detected'' = Some (VStr ''Yes'')
      then mk_alert current_data ''FIRE HAZARD'' ''flame'' ''critical''
             (dict_get current_data ''flame_raw'' (VInt 0)) ''raw'' True
      else Inr [])"

definition mq7_rule :: "dict \<Rightarrow> pyerr + alert list" where
  "mq7_rule current_data =
     (let mq7_drop = dict_get current_data ''mq7_drop'' (VInt 0)
      in bindE (py_gt mq7_drop 750) (\<lambda>crit.
           if crit then mk_alert current_data ''CO CRITICAL'' ''carbon_monoxide'' ''critical''
                          mq7_drop ''ppm'' True
           else bindE (py_gt mq7_drop 300) (\<lambda>high.
             if high then mk_alert current_data ''CO Elevated'' ''carbon_monoxide'' ''high''
                            mq7_drop ''ppm'' True
             else Inr [])))"

definition mq2_rule :: "dict \<Rightarrow> pyerr + alert list" where
  "mq2_rule current_data =
     (let mq2_drop = dict_get current_data ''mq2_drop'' (VInt 0)
      in bindE (py_gt mq2_drop 750) (\<lambda>crit.
           if crit then mk_alert current_data ''GAS CRITICAL'' ''flammable_gas'' ''critical''
                          mq2_drop ''ppm'' True
           else bindE (py_gt mq2_drop 300) (\<lambda>high.
             if high then mk_alert current_data ''Gas Elevated'' ''flammable_gas'' ''high''
                            mq2_drop ''ppm'' True
             else Inr [])))"

text \<open>
  \<open>avg_temp = (current_data['temperature_bmp280'] + current_data['temperature_dht22']) / 2\<close>
  reads the two raw fields by subscript.
\<close>

definition temperature_rule :: "dict \<Rightarrow> pyerr + alert list" where
  "temperature_rule current_data =
     bindE (subscript current_data ''temperature_bmp280'') (\<lambda>b.
     bindE (subscript current_data ''temperature_dht22'') (\<lambda>d.
     bindE (py_add b d) (\<lambda>s.
     bindE (py_div2 s) (\<lambda>avg_temp.
       if flt avg_temp (Fin 18)
       then mk_alert current_data ''Temperature Critical Low'' ''temperature'' ''high''
              (VFloat avg_temp) ''C'' True
       else if fgt avg_temp (Fin 30)
       then mk_alert current_data ''Temperature Critical High'' ''temperature'' ''high''
              (VFloat avg_temp) ''C'' True
       else if flt avg_temp (Fin 20) \<or> fgt avg_temp (Fin 27)
       then mk_alert current_data ''Temperature Outside Optimal'' ''temperature'' ''medium''
              (VFloat avg_temp) ''C'' False
       else Inr []))))"

definition humidity_rule :: "dict \<Rightarrow> pyerr + alert list" where
  "humidity_rule current_data =
     (let humidity = dict_get current_data ''humidity'' (VInt 0)
      in bindE (py_lt humidity 45) (\<lambda>low.
           if low then mk_alert current_data ''Humidity Critical Low'' ''humidity'' ''high''
                         humidity ''%'' True
           else bindE (py_gt humidity 80) (\<lambda>high.
             if high then mk_alert current_data ''Humidity Critical High'' ''humidity'' ''high''
                            humidity ''%'' True
             else bindE (py_lt humidity 45) (\<lambda>l2.
               bindE (if l2 then Inr True else py_gt humidity 70) (\<lambda>outside.
                 if outside
                 then mk_alert current_data ''Humidity Outside Optimal'' ''humidity'' ''medium''
                        humidity ''%'' False
                 else Inr [])))))"

definition mq135_rule :: "dict \<Rightarrow> pyerr + alert list" where
  "mq135_rule current_data =
     (let mq135_drop = dict_get current_data ''mq135_drop'' (VInt 0)
      in bindE (py_gt mq135_drop 500) (\<lambda>poor.
           if poor then mk_alert current_data ''Air Quality Poor'' ''air_quality'' ''medium''
                          mq135_drop ''ppm'' True
           else bindE (py_gt mq135_drop 200) (\<lambda>moderate.
             if moderate
             then mk_alert current_data ''Air Quality Moderate'' ''air_quality'' ''low''
                    mq135_drop ''ppm'' False
             else Inr [])))"

text \<open>The rules in the order of the source; the first exception ends the evaluation.\<close>

definition alert_rules :: "dict \<Rightarrow> pyerr + alert list" where
  "alert_rules current_data =
     bindE (flame_rule current_data) (\<lambda>a1.
     bindE (mq7_rule current_data) (\<lambda>a2.
     bindE (mq2_rule current_data) (\<lambda>a3.
     bindE (temperature_rule current_data) (\<lambda>a4.
     bindE (humidity_rule current_data) (\<lambda>a5.
     bindE (mq135_rule current_data) (\<lambda>a6.
       Inr (a1 @ a2 @ a3 @ a4 @ a5 @ a6)))))))"

text \<open>
  \<open>GET /api/alerts\<close>. \<open>current_data = {**latest, **build_derived_from_reading(latest)}\<close>:
  the derived fields override the raw ones.
\<close>

definition get_alerts ::
  "(string \<Rightarrow> pyfloat option) \<Rightarrow> rat \<Rightarrow> int \<Rightarrow> smart_cache \<Rightarrow> pyerr + alerts_response" where
  "get_alerts sf now now_dt c =
     (case fst (get_cached_apex_or_fetch now_dt c) of
        Some (latest # rest) \<Rightarrow>
          bindE (build_derived_from_reading sf now latest) (\<lambda>derived.
            let current_data = latest ++ derived
            in bindE (alert_rules current_data) (\<lambda>alerts.
                 bindE (subscript current_data ''timestamp'') (\<lambda>ts.
                   Inr \<lparr>r_status = 200, r_error = None, r_alerts = alerts,
                        r_timestamp = Some ts, r_alert_count = length alerts,
                        r_should_alert = list_ex a_sound alerts\<rparr>)))
      | _ \<Rightarrow>
          Inr \<lparr>r_status = 503, r_error = Some ''No APEX data available'', r_alerts = [],
               r_timestamp = None, r_alert_count = 0, r_should_alert = False\<rparr>)"

subsection \<open>History: get\_sensor\_analysis\<close>

text \<open>\<open>reading.get(k)\<close> tested with \<open>is not None\<close>: a stored \<open>None\<close> counts as missing.\<close>

definition get_nn :: "dict \<Rightarrow> string \<Rightarrow> pyval option" where
  "get_nn r k = (case r k of Some VNone \<Rightarrow> None | x \<Rightarrow> x)"

definition try_float :: "(string \<Rightarrow> pyfloat option) \<Rightarrow> pyval \<Rightarrow> pyfloat option" where
  "try_float sf v = (case py_float sf v of Inl e \<Rightarrow> None | Inr f \<Rightarrow> Some f)"

text \<open>The helper \<open>extract_value_for_sensor\<close>: every exception of its body returns \<open>None\<close>.\<close>

definition extract_value_for_sensor ::
  "(string \<Rightarrow> pyfloat option) \<Rightarrow> dict \<Rightarrow> string \<Rightarrow> pyfloat option" where
  "extract_value_for_sensor sf reading key =
     (if key = ''temperature'' then
        (case get_nn reading ''temperature'' of
           Some a \<Rightarrow> try_float sf a
         | None \<Rightarrow>
            (case (get_nn reading ''temperature_bmp280'', get_nn reading ''temperature_dht22'') of
               (Some b1, Some b2) \<Rightarrow>
                 (case (try_float sf b1, try_float sf b2) of
                    (Some x, Some y) \<Rightarrow> Some (fdivc (fadd x y) 2)
                  | _ \<Rightarrow> None)
             | (Some b1, None) \<Rightarrow> try_float sf b1
             | (None, Some b2) \<Rightarrow> try_float sf b2
             | (None, None) \<Rightarrow> None))
      else if key = ''light'' then
        (case get_nn reading ''light_raw'' of
           Some v \<Rightarrow> try_float sf v
         | None \<Rightarrow>
            (case get_nn reading ''light'' of
               Some v \<Rightarrow> try_float sf v
             | None \<Rightarrow>
                (case get_nn reading ''light_percent'' of
                   Some v \<Rightarrow> map_option (\<lambda>x. fdivc (fmulc x 4095) 100) (try_float sf v)
                 | None \<Rightarrow> None)))
      else
        (case reading key of
           Some v \<Rightarrow> try_float sf v
         | None \<Rightarrow>
            (case reading (key @ ''_raw'') of
               Some v \<Rightarrow> try_float sf v
             | None \<Rightarrow> None)))"

text \<open>The table \<open>data_points\<close> and its default.\<close>

definition data_points :: "string \<Rightarrow> nat" where
  "data_points time_range =
     (case map_of [(''seconds'', 60), (''minutes'', 60), (''hours'', 24), (''days'', 30),
                   (''weeks'', 52), (''months'', 12), (''years'', 5)] time_range of
        None \<Rightarrow> 30
      | Some n \<Rightarrow> n)"

record point =
  p_value :: pyfloat
  p_timestamp :: pyval

text \<open>
  One point of the series; \<open>t\<close> is the value of the call \<open>time.time()\<close> that the default of
  \<open>r.get\<close> evaluates.
\<close>

definition history_point :: "(string \<Rightarrow> pyfloat option) \<Rightarrow> string \<Rightarrow> rat \<Rightarrow> dict \<Rightarrow> point" where
  "history_point sf key t r =
     \<lparr>p_value =
        (case extract_value_for_sensor sf r key of
           Some x \<Rightarrow> x
         | None \<Rightarrow>
            (case py_float sf (dict_get r key (VFloat (Fin 0))) of
               Inl e \<Rightarrow> Fin 0
             | Inr f \<Rightarrow> f)),
      p_timestamp = dict_get r ''timestamp'' (dict_get r ''_ts_num'' (VFloat (Fin t)))\<rparr>"

datatype analysis_response =
    Unavailable503
  | Analysis200 "pyfloat option" "point list"

text \<open>
  \<open>GET /api/sensor-analysis/<sensor_type>\<close>, as far as the current value and the series
  \<open>historical_data\<close>. The field \<open>key\<close> is what the chain of substring tests selects from
  \<open>sensor_type\<close> (every branch selects one); unit, status text and the optional AI
  analysis do not enter the series. \<open>clk n\<close> is the \<open>n\<close>-th call of \<open>time.time()\<close> of
  the request: one in the derivation, one for each reading of the loop, then \<open>now_ts\<close>.
\<close>

definition get_sensor_analysis ::
  "(string \<Rightarrow> pyfloat option) \<Rightarrow> (nat \<Rightarrow> rat) \<Rightarrow> int \<Rightarrow> string \<Rightarrow> string \<Rightarrow> smart_cache
     \<Rightarrow> pyerr + analysis_response" where
  "get_sensor_analysis sf clk now_dt key time_range c =
     (let num_points = data_points time_range;
          (readings, cache_status) = get_cached_apex_or_fetch now_dt c
      in case readings of
           Some (latest # rest) \<Rightarrow>
             bindE (build_derived_from_reading sf (clk 0) latest) (\<lambda>derived.
               let current_data = (public_fields latest ++ derived)
                                    (''_data_source'' \<mapsto> VStr ''apex'',
                                     ''_cache_status'' \<mapsto> VStr cache_status);
                   historical_raw = take num_points (latest # rest);
                   current_value =
                     (case extract_value_for_sensor sf current_data key of
                        Some x \<Rightarrow> Some x
                      | None \<Rightarrow>
                         (case current_data key of
                            None \<Rightarrow> None
                          | Some v \<Rightarrow>
                             Some (case py_float sf v of Inl e \<Rightarrow> Fin 0 | Inr f \<Rightarrow> f)))
               in bindE (py_sort p_timestamp False
                           (map (\<lambda>(i, r). history_point sf key (clk (Suc i)) r)
                                (enumerate 0 historical_raw)))
                    (\<lambda>historical_data.
                       if length historical_data < 2
                       then (let now_ts = clk (Suc (length historical_raw));
                                 val = (case current_value of None \<Rightarrow> Fin 0 | Some x \<Rightarrow> x)
                             in Inr (Analysis200 current_value
                                  [\<lparr>p_value = val, p_timestamp = VFloat (Fin (now_ts - 10))\<rparr>,
                                   \<lparr>p_value = val, p_timestamp = VFloat (Fin now_ts)\<rparr>]))
                       else Inr (Analysis200 current_value historical_data)))
         | _ \<Rightarrow> Inr Unavailable503)"

section \<open>Properties\<close>



definition reading_ts :: "dict \<Rightarrow> rat" where
  "reading_ts x = key_rat (dict_get x ''timestamp'' VNone)"

definition point_ts :: "point \<Rightarrow> rat" where
  "point_ts p = key_rat (p_timestamp p)"

text \<open>A poll cycle whose fetch returned the empty batch.\<close>

definition poll_empty :: "(string \<Rightarrow> rat option) \<Rightarrow> poll \<Rightarrow> bool" where
  "poll_empty strp p = (fetch_apex_readings strp (poll_clock p) (poll_payload p) = [])"


definition response_status :: "pyerr + nat \<times> dict \<Rightarrow> nat option" where
  "response_status res = (case res of Inl e \<Rightarrow> None | Inr (s, b) \<Rightarrow> Some s)"



text \<open>The series of an analysis response, empty when there is none.\<close>

definition series_of :: "pyerr + analysis_response \<Rightarrow> point list" where
  "series_of res = (case res of Inr (Analysis200 cv hist) \<Rightarrow> hist | _ \<Rightarrow> [])"




subsection \<open>Concrete inputs\<close>

text \<open>A string parser that rejects every string: the inputs below hold no string to parse.\<close>

definition sf_none :: "string \<Rightarrow> pyfloat option" where
  "sf_none s = None"

text \<open>A reading with the flame indicator set, all other sensors in their normal bands.\<close>

definition flame_reading :: dict where
  "flame_reading =
     [''flame_detected'' \<mapsto> VInt 1, ''flame_raw'' \<mapsto> VInt 150,
      ''temperature_bmp280'' \<mapsto> VFloat (Fin 22), ''temperature_dht22'' \<mapsto> VFloat (Fin 23),
      ''humidity'' \<mapsto> VFloat (Fin 50),
      ''timestamp'' \<mapsto> VFloat (Fin 1000), ''_ts_num'' \<mapsto> VFloat (Fin 1000)]"

text \<open>A reading without the field \<open>temperature_bmp280\<close>.\<close>

definition no_bmp280_reading :: dict where
  "no_bmp280_reading =
     [''humidity'' \<mapsto> VFloat (Fin 50), ''temperature_dht22'' \<mapsto> VFloat (Fin 23),
      ''timestamp'' \<mapsto> VFloat (Fin 1000), ''_ts_num'' \<mapsto> VFloat (Fin 1000)]"

text \<open>A reading without \<open>flame_detected\<close> whose raw flame value is below the cutoff.\<close>

definition flame_raw_reading :: dict where
  "flame_raw_reading = [''flame_raw'' \<mapsto> VInt 100]"

text \<open>The same with \<open>flame_detected\<close> present and \<open>null\<close>.\<close>

definition flame_null_reading :: dict where
  "flame_null_reading = [''flame_raw'' \<mapsto> VInt 100, ''flame_detected'' \<mapsto> VNone]"

text \<open>Gas channels: a negative delta, a positive one, a negative baseline.\<close>

definition gas_reading :: dict where
  "gas_reading =
     [''mq7_drop'' \<mapsto> VFloat (Fin (- 3)), ''mq2_drop'' \<mapsto> VFloat (Fin (1234 / 100)),
      ''mq7_baseline'' \<mapsto> VFloat (Fin (- 5 / 4)), ''mq2_baseline'' \<mapsto> VInt 7]"

text \<open>The JSON number \<open>1e999\<close> decodes to \<open>inf\<close>.\<close>

definition soil_inf_reading :: dict where
  "soil_inf_reading = [''soil_moisture'' \<mapsto> VFloat PInf]"

text \<open>Caches holding one reading, captured at time 0.\<close>

definition flame_cache :: smart_cache where
  "flame_cache = \<lparr>cache_data = Some [flame_reading], cache_timestamp = Some 0\<rparr>"

definition no_bmp280_cache :: smart_cache where
  "no_bmp280_cache = \<lparr>cache_data = Some [no_bmp280_reading], cache_timestamp = Some 0\<rparr>"

text \<open>
  Upstream answers: a list of two records with the same timestamp string, and the clocks
  of a poll. The timestamp parser knows that one string (with the \<open>Z\<close> removed).
\<close>

definition strp_example :: "string \<Rightarrow> rat option" where
  "strp_example s =
     (if s = ''2025-10-29T15:21:22.971802'' then Some (1761751282971802 / 1000000) else None)"

definition clk_example :: "nat \<Rightarrow> rat" where
  "clk_example n = 1761751300 + of_nat n / 1000"

definition item_example :: pyval where
  "item_example =
     VDict [(''timestamp_reading'', VStr ''2025-10-29T15:21:22.971802Z''),
            (''temperature_bmp280'', VFloat (Fin 22)),
            (''temperature_dht22'', VFloat (Fin 23)),
            (''humidity'', VFloat (Fin 50))]"


definition single_poll :: poll where
  "single_poll = \<lparr>poll_payload = Some item_example, poll_clock = clk_example, poll_now = 0\<rparr>"

definition down_poll :: "int \<Rightarrow> poll" where
  "down_poll t = \<lparr>poll_payload = None, poll_clock = clk_example, poll_now = t\<rparr>"

subsection \<open>Evaluation\<close>

lemma floor_rat_numeral: "\<lfloor>numeral a / numeral b :: rat\<rfloor> = numeral a div numeral b"
  using floor_divide_of_int_eq[of "numeral a" "numeral b", where ?'a = rat] by simp

lemma floor_rat_neg_numeral:
  "\<lfloor>- (numeral a / numeral b) :: rat\<rfloor> = - numeral a div numeral b"
  using floor_divide_of_int_eq[of "- numeral a" "numeral b", where ?'a = rat] by simp

lemma char_of_digit:
  "char_of (48 :: nat) = CHR ''0''" "char_of (49 :: nat) = CHR ''1''"
  "char_of (50 :: nat) = CHR ''2''" "char_of (51 :: nat) = CHR ''3''"
  "char_of (52 :: nat) = CHR ''4''" "char_of (53 :: nat) = CHR ''5''"
  "char_of (54 :: nat) = CHR ''6''" "char_of (55 :: nat) = CHR ''7''"
  "char_of (56 :: nat) = CHR ''8''" "char_of (57 :: nat) = CHR ''9''"
  by code_simp+

lemmas eval_defs =
  build_derived_from_reading_def derived_dict_def Let_def num_def num_opt_def
  float_int_limit_def flame_detected_of_def gas_drop_def gas_baseline_def max0_def num_gt_def
  num_lt_def num_le_def fgt_def fdivc_def temperature_of_def light_intensity_of_def
  air_quality_label_def gas_label_def opt_float_def round_half_even_def
  get_cached_apex_or_fetch_def bindE_def subscript_def dict_get_def py_gt_def py_lt_def
  py_add_def py_div2_def mk_alert_def flame_rule_def mq7_rule_def mq2_rule_def
  temperature_rule_def humidity_rule_def mq135_rule_def alert_rules_def get_alerts_def
  derived_field_def map_add_def
  floor_rat_numeral floor_rat_neg_numeral

subsection \<open>Fetcher\<close>




lemma py_sort_Inr:
  assumes "list_all (\<lambda>x. num_key (key x) \<noteq> None) xs"
  shows "\<exists>ys. py_sort key reverse xs = Inr ys \<and> set ys = set xs \<and> length ys = length xs
           \<and> (if reverse then sorted_wrt (\<lambda>a b. key_rat (key a) \<ge> key_rat (key b)) ys
                else sorted_wrt (\<lambda>a b. key_rat (key a) \<le> key_rat (key b)) ys)"
proof -
  let ?k = "\<lambda>x. key_rat (key x)"
  have a: "sorted_wrt (\<lambda>a b. ?k a \<le> ?k b) (sort_key ?k zs)" for zs
    using sorted_sort_key[of ?k zs] by (simp add: sorted_map)
  have b: "sorted_wrt (\<lambda>a b. ?k a \<ge> ?k b) (rev (sort_key ?k (rev xs)))"
    using a[of "rev xs"] by (simp add: sorted_wrt_rev)
  show ?thesis using assms a[of xs] b by (simp add: py_sort_def)
qed



subsection \<open>Derived fields\<close>

lemma rhe_nonpos: "x \<le> 0 \<Longrightarrow> round_half_even x \<le> 0"
  unfolding round_half_even_def Let_def
  by (auto simp: floor_le_iff le_floor_iff)

lemma rhe_nonneg: "0 \<le> x \<Longrightarrow> 0 \<le> round_half_even x"
  unfolding round_half_even_def Let_def
  by (auto simp: floor_le_iff le_floor_iff)

lemma derived_dict_lookup:
  "derived_dict sf now r sm ''mq135_drop'' = Some (of_num (gas_drop sf r ''mq135_drop''))"
  "derived_dict sf now r sm ''mq2_drop'' = Some (of_num (gas_drop sf r ''mq2_drop''))"
  "derived_dict sf now r sm ''mq7_drop'' = Some (of_num (gas_drop sf r ''mq7_drop''))"
  "derived_dict sf now r sm ''mq135_baseline'' = Some (of_num (gas_baseline sf r ''mq135_baseline''))"
  "derived_dict sf now r sm ''mq2_baseline'' = Some (of_num (gas_baseline sf r ''mq2_baseline''))"
  "derived_dict sf now r sm ''mq7_baseline'' = Some (of_num (gas_baseline sf r ''mq7_baseline''))"
  "derived_dict sf now r sm ''flame_detected'' = Some (VBool (flame_detected_of sf r))"
  "derived_dict sf now r sm ''humidity'' = Some (of_num (round1 (num sf r ''humidity'' (NFloat (Fin 0)))))"
  "derived_dict sf now r sm ''temperature_bmp280'' = None"
  "derived_dict sf now r sm ''temperature_dht22'' = None"
  "derived_dict sf now r sm ''flame_raw'' = None"
  "derived_dict sf now r sm ''timestamp'' =
     Some (dict_get r ''timestamp'' (dict_get r ''_ts_num'' (VFloat (Fin now))))"
  by (simp_all add: derived_dict_def Let_def dict_get_def split: option.split)

lemma build_derived_Inr:
  "build_derived_from_reading sf now r = Inr d \<Longrightarrow> \<exists>sm. d = derived_dict sf now r sm"
  by (auto simp: build_derived_from_reading_def split: sum.splits)

lemma gas_drop_nonpos:
  assumes "r key = Some v" "py_float sf v = Inr x" "fle x (Fin 0)"
  shows "gas_drop sf r key = NInt 0"
proof (cases x)
  case (Fin a)
  with assms have "a \<le> 0" by simp
  then have "round_half_even (a * 10) \<le> 0" by (intro rhe_nonpos) simp
  then show ?thesis using assms Fin
    by (simp add: gas_drop_def num_def max0_def num_gt_def fgt_def)
qed (use assms in \<open>simp_all add: gas_drop_def num_def max0_def num_gt_def fgt_def\<close>)

lemma gas_drop_pos:
  assumes "r key = Some v" "py_float sf v = Inr x" "flt (Fin 0) x"
  shows "gas_drop sf r key = NFloat (fround1 x) \<or> (fround1 x = Fin 0 \<and> gas_drop sf r key = NInt 0)"
proof (cases x)
  case (Fin a)
  with assms have "0 \<le> a" by simp
  then have "0 \<le> round_half_even (a * 10)" by (intro rhe_nonneg) simp
  then show ?thesis using assms Fin
    by (auto simp add: gas_drop_def num_def max0_def num_gt_def fgt_def)
qed (use assms in \<open>simp_all add: gas_drop_def num_def max0_def num_gt_def fgt_def\<close>)

lemma gas_baseline_round:
  assumes "r key = Some v" "py_float sf v = Inr x"
  shows "gas_baseline sf r key = NFloat (fround1 x)"
  using assms by (simp add: gas_baseline_def num_def)

text \<open>
  C5. In the snapshot of any reading, for each of the three gas channels: a delta input that
  coerces to a number at most 0 gives exactly the integer 0; a positive one gives the input
  rounded to one decimal (which is the integer 0 when it rounds to zero); the baseline is
  the input rounded to one decimal, whatever its sign.
\<close>

theorem gas_delta_clamped:
  assumes "build_derived_from_reading sf now r = Inr d"
    and "(key, bkey) \<in> {(''mq135_drop'', ''mq135_baseline''), (''mq2_drop'', ''mq2_baseline''),
                        (''mq7_drop'', ''mq7_baseline'')}"
  shows "(\<forall>v x. r key = Some v \<longrightarrow> py_float sf v = Inr x \<longrightarrow> fle x (Fin 0)
            \<longrightarrow> d key = Some (VInt 0))
       \<and> (\<forall>v x. r key = Some v \<longrightarrow> py_float sf v = Inr x \<longrightarrow> flt (Fin 0) x
            \<longrightarrow> d key = Some (VFloat (fround1 x))
                \<or> (fround1 x = Fin 0 \<and> d key = Some (VInt 0)))
       \<and> (\<forall>v x. r bkey = Some v \<longrightarrow> py_float sf v = Inr x
            \<longrightarrow> d bkey = Some (VFloat (fround1 x)))"
proof -
  from assms(1) obtain sm where d: "d = derived_dict sf now r sm"
    using build_derived_Inr by blast
  have dk: "d key = Some (of_num (gas_drop sf r key))"
    and db: "d bkey = Some (of_num (gas_baseline sf r bkey))"
    using assms(2) unfolding d by (auto simp: derived_dict_lookup)
  have 1: "d key = Some (VInt 0)" if "r key = Some v" "py_float sf v = Inr x" "fle x (Fin 0)" for v x
    using gas_drop_nonpos[of r key v sf x] that dk by simp
  have 2: "d key = Some (VFloat (fround1 x)) \<or> (fround1 x = Fin 0 \<and> d key = Some (VInt 0))"
    if "r key = Some v" "py_float sf v = Inr x" "flt (Fin 0) x" for v x
    using gas_drop_pos[of r key v sf x] that dk by auto
  have 3: "d bkey = Some (VFloat (fround1 x))" if "r bkey = Some v" "py_float sf v = Inr x" for v x
    using gas_baseline_round[of r bkey v sf x] that db by simp
  show ?thesis using 1 2 3 by blast
qed

theorem gas_delta_clamped_witness:
  "build_derived_from_reading sf_none 0 gas_reading = Inr (derived_dict sf_none 0 gas_reading 45)
   \<and> gas_reading ''mq7_drop'' = Some (VFloat (Fin (- 3)))
   \<and> fle (Fin (- 3)) (Fin 0)
   \<and> derived_dict sf_none 0 gas_reading 45 ''mq7_drop'' = Some (VInt 0)
   \<and> gas_reading ''mq7_baseline'' = Some (VFloat (Fin (- 5 / 4)))
   \<and> derived_dict sf_none 0 gas_reading 45 ''mq7_baseline'' = Some (VFloat (Fin (- 6 / 5)))"
proof -
  have b: "build_derived_from_reading sf_none 0 gas_reading
             = Inr (derived_dict sf_none 0 gas_reading 45)"
    by (simp add: build_derived_from_reading_def num_def gas_reading_def sf_none_def
          float_int_limit_def round_half_even_def)
  have k: "(''mq7_drop'', ''mq7_baseline'') \<in> {(''mq135_drop'', ''mq135_baseline''),
             (''mq2_drop'', ''mq2_baseline''), (''mq7_drop'', ''mq7_baseline'')}"
    by simp
  have r1: "gas_reading ''mq7_drop'' = Some (VFloat (Fin (- 3)))"
    and r2: "gas_reading ''mq7_baseline'' = Some (VFloat (Fin (- 5 / 4)))"
    by (simp_all add: gas_reading_def)
  have f: "fround1 (Fin (- 5 / 4)) = Fin (- 6 / 5)"
    by (simp add: round_half_even_def Let_def floor_rat_numeral floor_rat_neg_numeral)
  from gas_delta_clamped[OF b k] r1 r2 f b show ?thesis by simp
qed

lemma gas_delta_positive_example:
  "derived_field (build_derived_from_reading sf_none 0 gas_reading) ''mq2_drop''
     = Some (VFloat (Fin (123 / 10)))"
  by (simp add: eval_defs gas_reading_def sf_none_def)

text \<open>
  C3 as stated fails: a reading without \<open>flame_detected\<close> whose raw flame value 100 is
  below the cutoff 2000 gets \<open>flame_detected = False\<close>.
\<close>

theorem flame_absent_counterexample:
  "flame_raw_reading ''flame_detected'' = None
   \<and> num_lt (num sf_none flame_raw_reading ''flame_raw'' (NInt 4095)) 2000
   \<and> derived_field (build_derived_from_reading sf_none 0 flame_raw_reading) ''flame_detected''
       = Some (VBool False)"
  by (simp add: eval_defs flame_raw_reading_def sf_none_def)

text \<open>
  C3, amended. When the field \<open>flame_detected\<close> is absent, the default \<open>0\<close> of
  \<open>r.get\<close> is taken and the snapshot's \<open>flame_detected\<close> is \<open>False\<close>. When the field
  is present and holds \<open>None\<close>, a list or a dict, the snapshot's value is the threshold
  test \<open>flame_raw < 2000\<close>, where \<open>flame_raw\<close> is coerced with default 4095.
\<close>

theorem flame_absent_is_false:
  assumes "build_derived_from_reading sf now r = Inr d"
  shows "(r ''flame_detected'' = None \<longrightarrow> d ''flame_detected'' = Some (VBool False))
       \<and> (r ''flame_detected'' = Some VNone
            \<or> (\<exists>xs. r ''flame_detected'' = Some (VList xs))
            \<or> (\<exists>kvs. r ''flame_detected'' = Some (VDict kvs))
          \<longrightarrow> d ''flame_detected''
                = Some (VBool (num_lt (num sf r ''flame_raw'' (NInt 4095)) 2000)))"
proof -
  from assms obtain sm where d: "d = derived_dict sf now r sm"
    using build_derived_Inr by blast
  have dk: "d ''flame_detected'' = Some (VBool (flame_detected_of sf r))"
    unfolding d by (simp add: derived_dict_lookup)
  show ?thesis unfolding dk
    by (auto simp: flame_detected_of_def Let_def)
qed

theorem flame_absent_is_false_witness:
  "build_derived_from_reading sf_none 0 flame_null_reading
     = Inr (derived_dict sf_none 0 flame_null_reading 45)
   \<and> flame_null_reading ''flame_detected'' = Some VNone
   \<and> derived_dict sf_none 0 flame_null_reading 45 ''flame_detected'' = Some (VBool True)"
proof -
  have b: "build_derived_from_reading sf_none 0 flame_null_reading
             = Inr (derived_dict sf_none 0 flame_null_reading 45)"
    by (simp add: build_derived_from_reading_def num_def flame_null_reading_def sf_none_def
          float_int_limit_def round_half_even_def)
  have r: "flame_null_reading ''flame_detected'' = Some VNone"
    by (simp add: flame_null_reading_def)
  have n: "num_lt (num sf_none flame_null_reading ''flame_raw'' (NInt 4095)) 2000"
    by (simp add: num_def num_lt_def flame_null_reading_def float_int_limit_def)
  from flame_absent_is_false[OF b] r n b show ?thesis by simp
qed

text \<open>
  C6. The derivation raises on a reading whose soil moisture is infinite: the one-argument
  \<open>round\<close> is outside the \<open>try\<close> of the coercion helper.
\<close>

theorem build_derived_raises_on_infinite_soil:
  "build_derived_from_reading sf now soil_inf_reading = Inl OverflowError"
  by (simp add: build_derived_from_reading_def num_def soil_inf_reading_def)

text \<open>Every other path of the derivation returns a snapshot.\<close>

lemma build_derived_total_iff:
  "(\<exists>d. build_derived_from_reading sf now r = Inr d)
     \<longleftrightarrow> (\<exists>i. round_int (num sf r ''soil_moisture'' (NInt 45)) = Inr i)"
  by (auto simp: build_derived_from_reading_def split: sum.splits)


subsection \<open>Alert engine\<close>

lemma flame_rule_silent:
  assumes "build_derived_from_reading sf now latest = Inr derived"
  shows "flame_rule (latest ++ derived) = Inr []"
proof -
  from assms obtain sm where d: "derived = derived_dict sf now latest sm"
    using build_derived_Inr by blast
  have "(latest ++ derived) ''flame_detected'' = Some (VBool (flame_detected_of sf latest))"
    unfolding d by (simp add: map_add_def derived_dict_lookup)
  then show ?thesis by (simp add: flame_rule_def)
qed

text \<open>
  C1. On a cached reading whose snapshot has \<open>flame_detected = True\<close> and whose other
  sensors are in their normal bands, the alert evaluation answers 200 with no alert at all
  and \<open>should_alert = False\<close>: the rule compares the boolean with the string \<open>'Yes'\<close>.
\<close>

theorem flame_alert_not_emitted:
  "derived_field (build_derived_from_reading sf_none 0 flame_reading) ''flame_detected''
     = Some (VBool True)
   \<and> get_alerts sf_none 0 5000000 flame_cache
     = Inr \<lparr>r_status = 200, r_error = None, r_alerts = [],
            r_timestamp = Some (VFloat (Fin 1000)), r_alert_count = 0,
            r_should_alert = False\<rparr>"
  by (simp add: eval_defs flame_reading_def flame_cache_def sf_none_def)

text \<open>
  C2. On a cached reading without \<open>temperature_bmp280\<close> the alert evaluation raises
  \<open>KeyError\<close>: the temperature rule subscripts the raw field.
\<close>

theorem alerts_raise_on_missing_temperature:
  "get_alerts sf now 5000000 no_bmp280_cache = Inl KeyError"
  by (simp add: eval_defs no_bmp280_reading_def no_bmp280_cache_def)

subsection \<open>Poller and cache\<close>

lemma poll_cycle_empty: "poll_empty strp p \<Longrightarrow> poll_cycle strp p c = c"
  by (simp add: poll_cycle_def poll_empty_def)

lemma poll_cycle_nonempty:
  "\<not> poll_empty strp p \<Longrightarrow>
   poll_cycle strp p c =
     c\<lparr>cache_data := Some (fetch_apex_readings strp (poll_clock p) (poll_payload p)),
       cache_timestamp := Some (poll_now p)\<rparr>"
  by (simp add: poll_cycle_def poll_empty_def)

lemma poller_all_empty:
  "list_all (poll_empty strp) qs \<Longrightarrow> continuous_apex_poller strp qs c = c"
  unfolding continuous_apex_poller_def
  by (induction qs arbitrary: c) (simp_all add: poll_cycle_empty)

lemma poller_append:
  "continuous_apex_poller strp (ps @ qs) c
     = continuous_apex_poller strp qs (continuous_apex_poller strp ps c)"
  by (simp add: continuous_apex_poller_def)

lemma poller_Cons:
  "continuous_apex_poller strp (p # qs) c = continuous_apex_poller strp qs (poll_cycle strp p c)"
  by (simp add: continuous_apex_poller_def)

lemma str_of_nat_12: "str_of_nat 12 = ''12''"
  by (simp add: str_of_nat.simps char_of_digit)

lemma fetch_none: "fetch_apex_readings strp clk None = []"
  by (simp add: fetch_apex_readings_def)

lemma down_poll_empty: "poll_empty strp (down_poll t)"
  by (simp add: poll_empty_def down_poll_def fetch_none)

lemmas fetch_defs =
  fetch_apex_readings_def payload_items_def resolve_timestamp_def replace_Z_def py_sort_def
  key_rat_def Let_def

lemma single_poll_nonempty: "\<not> poll_empty strp_example single_poll"
  by (simp add: poll_empty_def fetch_defs single_poll_def item_example_def strp_example_def
        clk_example_def del: not_None_eq)

text \<open>
  C7. A poll cycle whose fetch returns the empty batch leaves the cache as it was. After a
  cycle that fetched a batch, followed by any number of cycles that fetched nothing, a read
  of the cache returns that batch with the label \<open>cache_age_<n>s\<close> while the age is below
  10 seconds and \<open>cache_stale_<n>s\<close> from 10 seconds on, \<open>n\<close> being the age rounded
  to whole seconds.
\<close>

theorem empty_poll_keeps_cache:
  "(poll_empty strp q \<longrightarrow> poll_cycle strp q c = c)
   \<and> (\<not> poll_empty strp p \<and> list_all (poll_empty strp) qs \<longrightarrow>
        get_cached_apex_or_fetch now (continuous_apex_poller strp (pre @ p # qs) c0)
          = (Some (fetch_apex_readings strp (poll_clock p) (poll_payload p)),
             (if (of_int (now - poll_now p) :: rat) / 1000000 < 10
              then ''cache_age_'' else ''cache_stale_'')
               @ fmt_0f (of_int (now - poll_now p) / 1000000) @ ''s''))"
proof -
  have "get_cached_apex_or_fetch now (continuous_apex_poller strp (pre @ p # qs) c0)
          = (Some (fetch_apex_readings strp (poll_clock p) (poll_payload p)),
             (if (of_int (now - poll_now p) :: rat) / 1000000 < 10
              then ''cache_age_'' else ''cache_stale_'')
               @ fmt_0f (of_int (now - poll_now p) / 1000000) @ ''s'')"
    if p: "\<not> poll_empty strp p" and qs: "list_all (poll_empty strp) qs"
  proof -
    have "continuous_apex_poller strp (pre @ p # qs) c0
            = poll_cycle strp p (continuous_apex_poller strp pre c0)"
      by (simp add: poller_append poller_Cons poller_all_empty[OF qs])
    then show ?thesis
      by (simp add: poll_cycle_nonempty[OF p] get_cached_apex_or_fetch_def Let_def)
  qed
  then show ?thesis by (simp add: poll_cycle_empty)
qed

theorem empty_poll_keeps_cache_witness:
  "poll_empty strp_example (down_poll 3000000)
   \<and> poll_cycle strp_example (down_poll 3000000) flame_cache = flame_cache
   \<and> \<not> poll_empty strp_example single_poll
   \<and> list_all (poll_empty strp_example) [down_poll 3000000, down_poll 6000000, down_poll 9000000]
   \<and> get_cached_apex_or_fetch 12000000
        (continuous_apex_poller strp_example
           ([] @ single_poll # [down_poll 3000000, down_poll 6000000, down_poll 9000000])
           smart_cache_init)
      = (Some (fetch_apex_readings strp_example (poll_clock single_poll) (poll_payload single_poll)),
         ''cache_stale_12s'')"
proof -
  have d: "list_all (poll_empty strp_example)
             [down_poll 3000000, down_poll 6000000, down_poll 9000000]"
    by (simp add: down_poll_empty)
  have n: "poll_now single_poll = 0"
    by (simp add: single_poll_def)
  have f: "fmt_0f (12000000 / 1000000) = ''12''"
    by (simp add: fmt_0f_def round_half_even_def Let_def str_of_nat_12)
  from empty_poll_keeps_cache[of strp_example "down_poll 3000000" flame_cache single_poll
         "[down_poll 3000000, down_poll 6000000, down_poll 9000000]" 12000000 "[]"
         smart_cache_init]
  show ?thesis
    using d single_poll_nonempty down_poll_empty[of strp_example 3000000] n f by simp
qed

text \<open>
  C8. While no poll cycle has fetched a batch, a read of the cache returns no data with the
  label \<open>no_data\<close>, and \<open>GET /api/sensor-data\<close> answers 503 with the error body, not a
  snapshot.
\<close>

theorem never_populated_is_no_data:
  assumes "list_all (poll_empty strp) ps"
  shows "get_cached_apex_or_fetch now_dt (continuous_apex_poller strp ps smart_cache_init)
           = (None, ''no_data'')
       \<and> get_sensor_data sf now now_dt (continuous_apex_poller strp ps smart_cache_init)
           = Inr (503, [''error'' \<mapsto> VStr ''APEX data not available yet'',
                        ''message'' \<mapsto> VStr ''Waiting for APEX to respond. Please wait...'',
                        ''_data_source'' \<mapsto> VStr ''none''])"
  by (simp add: poller_all_empty[OF assms] get_sensor_data_def get_cached_apex_or_fetch_def
        smart_cache_init_def)

theorem never_populated_is_no_data_witness:
  "list_all (poll_empty strp_example) [down_poll 0, down_poll 3000000]
   \<and> get_cached_apex_or_fetch 5000000
        (continuous_apex_poller strp_example [down_poll 0, down_poll 3000000] smart_cache_init)
       = (None, ''no_data'')
   \<and> response_status (get_sensor_data sf_none 0 5000000
        (continuous_apex_poller strp_example [down_poll 0, down_poll 3000000] smart_cache_init))
       = Some 503"
proof -
  have d: "list_all (poll_empty strp_example) [down_poll 0, down_poll 3000000]"
    by (simp add: down_poll_empty)
  from never_populated_is_no_data[OF d, of 5000000 sf_none 0] d
  show ?thesis by (simp add: response_status_def)
qed

subsection \<open>Reachable caches\<close>








lemma get_cached_data:
  "fst (get_cached_apex_or_fetch now c) = Some d \<Longrightarrow> cache_data c = Some d"
  by (auto simp: get_cached_apex_or_fetch_def Let_def split: option.splits if_splits)


subsection \<open>Reading the latest snapshot\<close>





subsection \<open>History\<close>

lemma py_sort_result:
  assumes "py_sort key reverse xs = Inr ys"
  shows "length ys = length xs"
    and "list_all (\<lambda>x. num_key (key x) \<noteq> None) ys"
    and "\<not> reverse \<Longrightarrow> sorted_wrt (\<lambda>a b. key_rat (key a) \<le> key_rat (key b)) ys"
proof -
  from assms have a: "list_all (\<lambda>x. num_key (key x) \<noteq> None) xs"
    by (simp add: py_sort_def split: if_splits)
  from py_sort_Inr[OF a, of reverse] assms
  have s: "set ys = set xs" "length ys = length xs"
    "if reverse then sorted_wrt (\<lambda>a b. key_rat (key a) \<ge> key_rat (key b)) ys
     else sorted_wrt (\<lambda>a b. key_rat (key a) \<le> key_rat (key b)) ys"
    by auto
  show "length ys = length xs" by (rule s(2))
  show "list_all (\<lambda>x. num_key (key x) \<noteq> None) ys"
    using a s(1) by (simp add: list_all_iff)
  show "sorted_wrt (\<lambda>a b. key_rat (key a) \<le> key_rat (key b)) ys" if "\<not> reverse"
    using s(3) that by simp
qed

text \<open>The outcomes of the analysis endpoint.\<close>

lemma get_sensor_analysis_cases:
  obtains (unavailable) "get_sensor_analysis sf clk now_dt key tr c = Inr Unavailable503"
  | (derive_error) latest rest e where
      "cache_data c = Some (latest # rest)"
      "build_derived_from_reading sf (clk 0) latest = Inl e"
      "get_sensor_analysis sf clk now_dt key tr c = Inl e"
  | (sort_error) latest rest e where
      "cache_data c = Some (latest # rest)"
      "py_sort p_timestamp False
         (map (\<lambda>(i, r). history_point sf key (clk (Suc i)) r)
              (enumerate 0 (take (data_points tr) (latest # rest)))) = Inl e"
      "get_sensor_analysis sf clk now_dt key tr c = Inl e"
  | (series) latest rest cv hs where
      "cache_data c = Some (latest # rest)"
      "py_sort p_timestamp False
         (map (\<lambda>(i, r). history_point sf key (clk (Suc i)) r)
              (enumerate 0 (take (data_points tr) (latest # rest)))) = Inr hs"
      "get_sensor_analysis sf clk now_dt key tr c =
         Inr (Analysis200 cv
           (if length hs < 2
            then [\<lparr>p_value = (case cv of None \<Rightarrow> Fin 0 | Some x \<Rightarrow> x),
                   p_timestamp = VFloat (Fin (clk (Suc (length (take (data_points tr)
                                   (latest # rest)))) - 10))\<rparr>,
                  \<lparr>p_value = (case cv of None \<Rightarrow> Fin 0 | Some x \<Rightarrow> x),
                   p_timestamp = VFloat (Fin (clk (Suc (length (take (data_points tr)
                                   (latest # rest))))))\<rparr>]
            else hs))"
proof -
  obtain readings cache_status where g: "get_cached_apex_or_fetch now_dt c = (readings, cache_status)"
    by (cases "get_cached_apex_or_fetch now_dt c")
  show ?thesis
  proof (cases readings)
    case None
    with g have "get_sensor_analysis sf clk now_dt key tr c = Inr Unavailable503"
      by (simp add: get_sensor_analysis_def Let_def)
    then show ?thesis by (rule unavailable)
  next
    case (Some d)
    show ?thesis
    proof (cases d)
      case Nil
      with g Some have "get_sensor_analysis sf clk now_dt key tr c = Inr Unavailable503"
        by (simp add: get_sensor_analysis_def Let_def)
      then show ?thesis by (rule unavailable)
    next
      case (Cons latest rest)
      have cd: "cache_data c = Some (latest # rest)"
        using get_cached_data[of now_dt c d] g Some Cons by simp
      show ?thesis
      proof (cases "build_derived_from_reading sf (clk 0) latest")
        case (Inl e)
        with g Some Cons have "get_sensor_analysis sf clk now_dt key tr c = Inl e"
          by (simp add: get_sensor_analysis_def Let_def bindE_def)
        with cd Inl show ?thesis by (rule derive_error)
      next
        case (Inr derived)
        show ?thesis
        proof (cases "py_sort p_timestamp False
           (map (\<lambda>(i, r). history_point sf key (clk (Suc i)) r)
              (enumerate 0 (take (data_points tr) (latest # rest))))")
          case e: (Inl e)
          with g Some Cons Inr have "get_sensor_analysis sf clk now_dt key tr c = Inl e"
            by (simp add: get_sensor_analysis_def Let_def bindE_def)
          with cd e show ?thesis by (rule sort_error)
        next
          case hs: (Inr hs)
          define cv where "cv =
            (case extract_value_for_sensor sf
                    ((public_fields latest ++ derived)
                       (''_data_source'' \<mapsto> VStr ''apex'',
                        ''_cache_status'' \<mapsto> VStr cache_status)) key of
               Some x \<Rightarrow> Some x
             | None \<Rightarrow>
                (case ((public_fields latest ++ derived)
                         (''_data_source'' \<mapsto> VStr ''apex'',
                          ''_cache_status'' \<mapsto> VStr cache_status)) key of
                   None \<Rightarrow> None
                 | Some v \<Rightarrow> Some (case py_float sf v of Inl e \<Rightarrow> Fin 0 | Inr f \<Rightarrow> f)))"
          have "get_sensor_analysis sf clk now_dt key tr c =
            Inr (Analysis200 cv
              (if length hs < 2
               then [\<lparr>p_value = (case cv of None \<Rightarrow> Fin 0 | Some x \<Rightarrow> x),
                      p_timestamp = VFloat (Fin (clk (Suc (length (take (data_points tr)
                                      (latest # rest)))) - 10))\<rparr>,
                     \<lparr>p_value = (case cv of None \<Rightarrow> Fin 0 | Some x \<Rightarrow> x),
                      p_timestamp = VFloat (Fin (clk (Suc (length (take (data_points tr)
                                      (latest # rest))))))\<rparr>]
               else hs))"
            using g Some Cons Inr hs
            by (simp add: get_sensor_analysis_def Let_def bindE_def cv_def)
          with cd hs show ?thesis by (rule series)
        qed
      qed
    qed
  qed
qed





lemma series_length:
  assumes "get_sensor_analysis sf clk now_dt key tr c = Inr (Analysis200 cv hist)"
  shows "2 \<le> length hist"
proof (cases rule: get_sensor_analysis_cases[of sf clk now_dt key tr c])
  case (series latest rest cv' hs)
  with assms show ?thesis by (auto split: if_splits)
qed (use assms in simp_all)

lemma series_fabricated:
  assumes "get_sensor_analysis sf clk now_dt key tr c = Inr (Analysis200 cv hist)"
    and "cache_data c = Some readings"
    and "length (take (data_points tr) readings) < 2"
  shows "hist = [\<lparr>p_value = (case cv of None \<Rightarrow> Fin 0 | Some x \<Rightarrow> x),
                  p_timestamp = VFloat (Fin (clk (Suc (length (take (data_points tr) readings)))
                                             - 10))\<rparr>,
                 \<lparr>p_value = (case cv of None \<Rightarrow> Fin 0 | Some x \<Rightarrow> x),
                  p_timestamp = VFloat (Fin (clk (Suc (length (take (data_points tr)
                                             readings)))))\<rparr>]"
proof (cases rule: get_sensor_analysis_cases[of sf clk now_dt key tr c])
  case (series latest rest cv' hs)
  have r: "readings = latest # rest" using series(1) assms(2) by simp
  have "length hs = length (take (data_points tr) readings)"
    using py_sort_result(1)[OF series(2)] r by simp
  with assms(3) have "length hs < 2" by simp
  with series(3) assms(1) r show ?thesis by simp
qed (use assms in simp_all)









lemmas analysis_defs =
  get_sensor_analysis_def series_of_def data_points_def history_point_def
  extract_value_for_sensor_def get_nn_def try_float_def public_fields_def
  startswith_underscore_def point_ts_def reading_ts_def
  continuous_apex_poller_def poll_cycle_def smart_cache_init_def




text \<open>
  C10. Every series that the analysis endpoint returns has at least two points. When fewer
  than two points are built from the cached readings, the series is two points carrying
  the current value (0.0 when there is none), stamped 10 seconds before and at the value
  of \<open>time.time()\<close> read after the loop.
\<close>

theorem history_has_two_points:
  "(get_sensor_analysis sf clk now_dt key tr c = Inr (Analysis200 cv hist)
      \<longrightarrow> 2 \<le> length hist)
   \<and> (get_sensor_analysis sf clk now_dt key tr c = Inr (Analysis200 cv hist)
        \<and> cache_data c = Some readings
        \<and> length (take (data_points tr) readings) < 2
      \<longrightarrow> hist =
           [\<lparr>p_value = (case cv of None \<Rightarrow> Fin 0 | Some x \<Rightarrow> x),
             p_timestamp = VFloat (Fin (clk (Suc (length (take (data_points tr) readings)))
                                        - 10))\<rparr>,
            \<lparr>p_value = (case cv of None \<Rightarrow> Fin 0 | Some x \<Rightarrow> x),
             p_timestamp = VFloat (Fin (clk (Suc (length (take (data_points tr)
                                        readings)))))\<rparr>])"
  using series_length[of sf clk now_dt key tr c cv hist]
    series_fabricated[of sf clk now_dt key tr c cv hist readings]
  by blast

theorem history_has_two_points_witness:
  "get_sensor_analysis sf_none clk_example 1000000 ''temperature'' ''hours''
       (continuous_apex_poller strp_example [single_poll] smart_cache_init)
     = Inr (Analysis200 (Some (Fin (45 / 2)))
         [\<lparr>p_value = Fin (45 / 2), p_timestamp = VFloat (Fin (clk_example 2 - 10))\<rparr>,
          \<lparr>p_value = Fin (45 / 2), p_timestamp = VFloat (Fin (clk_example 2))\<rparr>])
   \<and> cache_data (continuous_apex_poller strp_example [single_poll] smart_cache_init)
     = Some (fetch_apex_readings strp_example clk_example (Some item_example))
   \<and> length (take (data_points ''hours'')
        (fetch_apex_readings strp_example clk_example (Some item_example))) < 2
   \<and> 2 \<le> length
        [\<lparr>p_value = Fin (45 / 2), p_timestamp = VFloat (Fin (clk_example 2 - 10))\<rparr>,
         \<lparr>p_value = Fin (45 / 2), p_timestamp = VFloat (Fin (clk_example 2))\<rparr>]"
proof -
  have a: "get_sensor_analysis sf_none clk_example 1000000 ''temperature'' ''hours''
       (continuous_apex_poller strp_example [single_poll] smart_cache_init)
     = Inr (Analysis200 (Some (Fin (45 / 2)))
         [\<lparr>p_value = Fin (45 / 2), p_timestamp = VFloat (Fin (clk_example 2 - 10))\<rparr>,
          \<lparr>p_value = Fin (45 / 2), p_timestamp = VFloat (Fin (clk_example 2))\<rparr>])"
    by (simp add: analysis_defs eval_defs fetch_defs single_poll_def item_example_def
          strp_example_def clk_example_def sf_none_def del: not_None_eq)
  have b: "cache_data (continuous_apex_poller strp_example [single_poll] smart_cache_init)
     = Some (fetch_apex_readings strp_example clk_example (Some item_example))"
    using single_poll_nonempty
    by (simp add: poller_Cons continuous_apex_poller_def poll_cycle_nonempty single_poll_def)
  have c: "length (take (data_points ''hours'')
        (fetch_apex_readings strp_example clk_example (Some item_example))) < 2"
    by (simp add: fetch_defs item_example_def strp_example_def clk_example_def
          del: not_None_eq)
  from history_has_two_points[of sf_none clk_example 1000000 "''temperature''" "''hours''"
         "continuous_apex_poller strp_example [single_poll] smart_cache_init"
         "Some (Fin (45 / 2))" _ "fetch_apex_readings strp_example clk_example (Some item_example)"]
    a b c
  show ?thesis by simp
qed

end
